theory Spec2Isabelle
  imports Main
begin

section \<open>Values shared by both source files\<close>

text \<open>
  The repository holds two versions of the wallet module: \<^verbatim>\<open>src/index.js\<close> (the current
  one) and an older file (\<^verbatim>\<open>part_000\<close>). Both keep the session in the fields of one
  \<^verbatim>\<open>ledger\<close> object and in a few module variables, and both are written as
  \<^verbatim>\<open>async\<close> functions. An \<^verbatim>\<open>async\<close> function is modelled by its synchronous
  segments: one function for the code that runs from the call to the first \<^verbatim>\<open>await\<close>, and
  one that resumes a suspended call with the answer of the collaborator it waits for. Between
  two segments any other segment may run, so every resuming function takes the state as it
  is at that later moment.

  The transport, the device application and the host SDK are collaborators: what they answer
  is an input. A collaborator is taken to answer through the promise it returns (it does not
  throw while being called), and an answer that does not fit the request a call waits for
  leaves that call waiting.
\<close>

type_synonym bytes = "nat list"

text \<open>
  A thrown JavaScript value: \<^verbatim>\<open>new Error(msg)\<close> of this module, the \<^verbatim>\<open>TypeError\<close> of a
  property access on \<^verbatim>\<open>null\<close>/\<^verbatim>\<open>undefined\<close>, or an error object of a collaborator with
  its \<^verbatim>\<open>id\<close> and \<^verbatim>\<open>currentLock\<close> fields (absent fields are \<open>None\<close>).
\<close>

datatype jserror =
    Error string
  | TypeError
  | External (ext_id: "string option") (ext_lock: "string option") (ext_message: string)

fun error_id :: "jserror \<Rightarrow> string option" where
  "error_id (External i l m) = i"
| "error_id e = None"

fun error_currentLock :: "jserror \<Rightarrow> string option" where
  "error_currentLock (External i l m) = l"
| "error_currentLock e = None"

text \<open>The outcome of one segment of an \<^verbatim>\<open>async\<close> call: suspended at an \<^verbatim>\<open>await\<close>
  with a continuation, fulfilled with a value, or rejected with the thrown error.\<close>

datatype ('k, 'r) outcome = Await 'k | Resolved 'r | Rejected jserror

text \<open>\<^verbatim>\<open>new StellarApp(transport)\<close>: an object with its own identity, wrapping a transport.\<close>

datatype app = StellarApp (app_id: nat) (app_transport: nat)

text \<open>The values the module variable \<^verbatim>\<open>connection\<close> takes: \<^verbatim>\<open>null\<close>/\<^verbatim>\<open>undefined\<close>, the
  placeholder the attempt stores on entry (\<^verbatim>\<open>true\<close>, \<^verbatim>\<open>'x'\<close> in the older file), or the
  promise of an attempt.\<close>

datatype marker = Null | Placeholder | Promise nat

record decorated =
  hint :: bytes
  signature :: bytes

text \<open>A transaction of the host SDK: the payload \<^verbatim>\<open>signatureBase()\<close> returns and the
  mutable list \<^verbatim>\<open>signatures\<close>.\<close>

record tx =
  signatureBase :: bytes
  signatures :: "decorated list"

text \<open>What the module does to the outside world, in order.\<close>

datatype call =
    ConsoleLog string
  | ConsoleError jserror
  | TransportCreate
  | TransportClose nat
  | GetPublicKey app "string option"
  | GetAppConfiguration app
  | SignTransaction app "string option" bytes
  | SetTimeout nat
  | IframeCleanup
  | FireOnConnect
  | FireOnDisconnect

text \<open>What a collaborator answers.\<close>

datatype reply =
    Created nat
  | GotPublicKey string
  | GotConfiguration string bool
  | Signed bytes
  | Closed
  | TimerFired
  | Failed jserror

text \<open>
  The \<^verbatim>\<open>ledger\<close> object and the module variables. The fields \<open>account\<close>, \<open>index\<close>,
  \<open>internalFlag\<close>, \<open>error\<close>, \<open>ping\<close> and \<open>isPolling\<close> exist in the older file only;
  \<^verbatim>\<open>index.js\<close> never touches them. \<open>fresh\<close> numbers the objects the module
  allocates, \<open>effects\<close> records its calls to the outside, \<open>txs\<close> is the store of the
  caller's transaction objects.
\<close>

record state =
  publicKey :: "string option"
  path :: "string option"
  version :: "string option"
  multiOpsEnabled :: "bool option"
  transport :: "nat option"
  application :: "app option"
  account :: "int option"
  index :: "int option"
  internalFlag :: "bool option"
  error :: "jserror option"
  connection :: marker
  disconnection :: "nat option"
  ping :: bool
  isPolling :: bool
  fresh :: nat
  effects :: "call list"
  txs :: "nat \<Rightarrow> tx option"

definition init :: state where
  "init = \<lparr> publicKey = None, path = None, version = None, multiOpsEnabled = None,
            transport = None, application = None, account = None, index = None,
            internalFlag = None, error = None, connection = Null, disconnection = None,
            ping = False, isPolling = False, fresh = 0, effects = [], txs = (\<lambda>r. None) \<rparr>"

text \<open>JavaScript truthiness of a string-or-null value: \<^verbatim>\<open>null\<close>, \<^verbatim>\<open>undefined\<close> and the
  empty string are falsy.\<close>

fun truthy :: "string option \<Rightarrow> bool" where
  "truthy None = False"
| "truthy (Some s) = (s \<noteq> [])"

definition emit :: "call \<Rightarrow> state \<Rightarrow> state" where
  "emit c s = s\<lparr>effects := effects s @ [c]\<rparr>"

text \<open>Decimal rendering of a number, as a template literal does for an integer.\<close>

fun digits :: "nat \<Rightarrow> string" where
  "digits n = (if n < 10 then [''0123456789'' ! n]
               else digits (n div 10) @ [''0123456789'' ! (n mod 10)])"

definition number_to_string :: "int \<Rightarrow> string" where
  "number_to_string i = (if i < 0 then ''-'' @ digits (nat (- i)) else digits (nat i))"

section \<open>index.js\<close>

subsection \<open>ledger.connect.path\<close>

text \<open>An account is a number or a derivation path. Numbers are modelled as integers: a
  JavaScript number holds an integer exactly up to \<open>2^53\<close>, and a template literal prints
  such a number in decimal.\<close>

datatype account_id = Number int | String string

definition BIP_PATH :: string where
  "BIP_PATH = ''44'' @ [CHR 0x27] @ ''/148'' @ [CHR 0x27]"

fun ledger_connect_path :: "account_id \<Rightarrow> jserror + string" where
  "ledger_connect_path (Number n) =
     (if n < 1 then Inl (Error ''Account number starts at 1.'')
      else Inr (BIP_PATH @ ''/'' @ number_to_string (n - 1) @ [CHR 0x27]))"
| "ledger_connect_path (String a) =
     Inr (if take 2 a = ''m/'' then drop 2 a else a)"

subsection \<open>softReset, reset and the event handlers\<close>

definition softReset :: "state \<Rightarrow> state" where
  "softReset s = s\<lparr>connection := Null, path := None, publicKey := None\<rparr>"

text \<open>\<^verbatim>\<open>libValues.forEach(key => ledger[key] = null)\<close>, in the order of \<^verbatim>\<open>libValues\<close>.\<close>

definition reset :: "state \<Rightarrow> state" where
  "reset s = s\<lparr>connection := Null, transport := None, application := None, path := None,
               version := None, publicKey := None, multiOpsEnabled := None\<rparr>"

text \<open>\<open>FireOnConnect\<close> and \<open>FireOnDisconnect\<close> stand for the call of the user's handler,
  made when one is installed. A handler is taken not to call back into the module.\<close>

definition onConnect :: "state \<Rightarrow> state" where
  "onConnect s = emit FireOnConnect (emit (ConsoleLog ''Ledger connected'') s)"

definition onDisconnect :: "state \<Rightarrow> state" where
  "onDisconnect s = emit FireOnDisconnect (emit (ConsoleLog ''Ledger disconnected'') s)"

subsection \<open>connect: the handshake loop\<close>

text \<open>
  The loop suspends at three places. Its continuation keeps the local variables \<^verbatim>\<open>path\<close>
  and \<^verbatim>\<open>startTime\<close>. \<open>isNode\<close> is \<^verbatim>\<open>env.isNode\<close>; \<open>now\<close> is what \<^verbatim>\<open>+new Date()\<close>
  reads while the segment runs.
\<close>

datatype connect_await = AwaitCreate | AwaitGetPublicKey | AwaitGetAppConfiguration

datatype connect_cont = ConnectCont (awaiting: connect_await) (target: string) (startTime: int)

type_synonym connect_result = "state \<times> (connect_cont, unit) outcome"

text \<open>Lines 141 to 145, with \<open>h\<close> the value of \<^verbatim>\<open>ledger.transport\<close>.\<close>

definition connect_application :: "bool \<Rightarrow> string \<Rightarrow> int \<Rightarrow> nat \<Rightarrow> state \<Rightarrow> connect_result" where
  "connect_application isNode p t0 h s =
     (let new = (let a = StellarApp (fresh s) h
                 in (emit (GetPublicKey a (Some p)) (s\<lparr>application := Some a, fresh := Suc (fresh s)\<rparr>),
                     Await (ConnectCont AwaitGetPublicKey p t0)))
      in case application s of
           None \<Rightarrow> new
         | Some a \<Rightarrow> if isNode then new
                     else (emit (GetPublicKey a (Some p)) s, Await (ConnectCont AwaitGetPublicKey p t0)))"

text \<open>The body of \<^verbatim>\<open>try\<close> from its first line (138).\<close>

definition connect_try :: "bool \<Rightarrow> string \<Rightarrow> int \<Rightarrow> state \<Rightarrow> connect_result" where
  "connect_try isNode p t0 s =
     (case transport s of
        None \<Rightarrow> (emit TransportCreate s, Await (ConnectCont AwaitCreate p t0))
      | Some h \<Rightarrow> if isNode then (emit TransportCreate s, Await (ConnectCont AwaitCreate p t0))
                  else connect_application isNode p t0 h s)"

text \<open>The loop test of line 134 followed by \<^verbatim>\<open>startTime = +new Date()\<close>.\<close>

definition connect_while :: "bool \<Rightarrow> string \<Rightarrow> int \<Rightarrow> state \<Rightarrow> connect_result" where
  "connect_while isNode p now s =
     (if connection s \<noteq> Null \<and> \<not> truthy (publicKey s) then connect_try isNode p now s
      else (s, Resolved ()))"

text \<open>The \<^verbatim>\<open>catch\<close> block (lines 149 to 165). The removal of the iframe is an effect on
  the page, recorded as \<open>IframeCleanup\<close>.\<close>

definition connect_catch :: "bool \<Rightarrow> string \<Rightarrow> int \<Rightarrow> int \<Rightarrow> jserror \<Rightarrow> state \<Rightarrow> connect_result" where
  "connect_catch isNode p t0 now e s =
     (let s1 = (if error_id e = Some ''U2FNotSupported'' then emit IframeCleanup s else s)
      in if now - t0 < 25000 then (softReset s1, Rejected e)
         else connect_while isNode p now s1)"

fun connect_resume :: "bool \<Rightarrow> connect_cont \<Rightarrow> reply \<Rightarrow> int \<Rightarrow> state \<Rightarrow> connect_result" where
  "connect_resume isNode (ConnectCont w p t0) (Failed e) now s = connect_catch isNode p t0 now e s"
| "connect_resume isNode (ConnectCont AwaitCreate p t0) (Created h) now s =
     connect_application isNode p t0 h (s\<lparr>transport := Some h\<rparr>)"
| "connect_resume isNode (ConnectCont AwaitGetPublicKey p t0) (GotPublicKey k) now s =
     (let s1 = s\<lparr>publicKey := Some k\<rparr>
      in case application s1 of
           None \<Rightarrow> connect_catch isNode p t0 now TypeError s1
         | Some a \<Rightarrow> (emit (GetAppConfiguration a) s1,
                      Await (ConnectCont AwaitGetAppConfiguration p t0)))"
| "connect_resume isNode (ConnectCont AwaitGetAppConfiguration p t0) (GotConfiguration v m) now s =
     connect_while isNode p now
       (onConnect (s\<lparr>version := Some v, multiOpsEnabled := Some m, path := Some p\<rparr>))"
| "connect_resume isNode k r now s = (s, Await k)"

text \<open>The call \<^verbatim>\<open>connect(path)\<close> up to its first \<^verbatim>\<open>await\<close>.\<close>

definition connect :: "bool \<Rightarrow> string \<Rightarrow> int \<Rightarrow> state \<Rightarrow> connect_result" where
  "connect isNode p now s =
     connect_while isNode p now
       ((emit (ConsoleLog ''Attempting ledger connection...'') s)\<lparr>connection := Placeholder\<rparr>)"

text \<open>Feeding an attempt the answers of the device one after the other, nothing else
  running in between. Each answer comes with the time at which it arrives.\<close>

fun connect_run :: "bool \<Rightarrow> (reply \<times> int) list \<Rightarrow> connect_result \<Rightarrow> connect_result" where
  "connect_run isNode [] res = res"
| "connect_run isNode ((r, now) # rs) (s, Await k) =
     connect_run isNode rs (connect_resume isNode k r now s)"
| "connect_run isNode (x # rs) (s, out) = (s, out)"

subsection \<open>ledger.connect\<close>

text \<open>
  The result of a segment of \<^verbatim>\<open>ledger.connect\<close>: the state, the outcome (suspended on
  the pending disconnection with the resolved path, or returning the value of
  \<^verbatim>\<open>connection\<close>), and the continuation of the attempt it started, if it started one.
\<close>

type_synonym ledger_connect_result = "state \<times> (string, marker) outcome \<times> connect_cont list"

text \<open>Lines 114 and 115.\<close>

definition ledger_connect_return :: "bool \<Rightarrow> string \<Rightarrow> int \<Rightarrow> state \<Rightarrow> ledger_connect_result" where
  "ledger_connect_return isNode p now s =
     (if connection s = Null then
        (case connect isNode p now s of
           (s1, out) \<Rightarrow>
             (s1\<lparr>connection := Promise (fresh s1), fresh := Suc (fresh s1)\<rparr>,
              Resolved (Promise (fresh s1)),
              (case out of Await k \<Rightarrow> [k] | Resolved u \<Rightarrow> [] | Rejected e \<Rightarrow> [])))
      else (s, Resolved (connection s), []))"

text \<open>Lines 113 to 115.\<close>

definition ledger_connect_tail :: "bool \<Rightarrow> string \<Rightarrow> int \<Rightarrow> state \<Rightarrow> ledger_connect_result" where
  "ledger_connect_tail isNode p now s =
     ledger_connect_return isNode p now
       (if truthy (path s) \<and> path s \<noteq> Some p then softReset s else s)"

text \<open>The call itself; \<open>None\<close> is the omitted argument, which defaults to account 1.\<close>

definition ledger_connect :: "bool \<Rightarrow> account_id option \<Rightarrow> int \<Rightarrow> state \<Rightarrow> ledger_connect_result" where
  "ledger_connect isNode a now s =
     (case ledger_connect_path (case a of None \<Rightarrow> Number 1 | Some x \<Rightarrow> x) of
        Inl e \<Rightarrow> (s, Rejected e, [])
      | Inr p \<Rightarrow> if disconnection s \<noteq> None then (s, Await p, [])
                 else ledger_connect_tail isNode p now s)"

text \<open>Resuming after \<^verbatim>\<open>await disconnection\<close>, with the way that promise settled.\<close>

fun ledger_connect_resume :: "bool \<Rightarrow> string \<Rightarrow> jserror + unit \<Rightarrow> int \<Rightarrow> state \<Rightarrow> ledger_connect_result" where
  "ledger_connect_resume isNode p (Inl e) now s = (s, Rejected e, [])"
| "ledger_connect_resume isNode p (Inr u) now s = ledger_connect_tail isNode p now s"

subsection \<open>ledger.disconnect and closeTransport\<close>

datatype disconnect_await = AwaitClose | AwaitDisconnection

text \<open>\<^verbatim>\<open>closeTransport\<close> up to its \<^verbatim>\<open>await\<close>: the call of \<^verbatim>\<open>transport.close()\<close>.\<close>

definition closeTransport :: "nat \<Rightarrow> state \<Rightarrow> state" where
  "closeTransport h s = emit (TransportClose h) s"

text \<open>\<^verbatim>\<open>closeTransport\<close> after \<^verbatim>\<open>transport.close()\<close> has answered: how its promise
  settles.\<close>

fun closeTransport_resume :: "reply \<Rightarrow> state \<Rightarrow> state \<times> (jserror + unit)" where
  "closeTransport_resume (Failed e) s = (emit (ConsoleError e) s, Inr ())"
| "closeTransport_resume r s = (s, Inr ())"

text \<open>The call \<^verbatim>\<open>ledger.disconnect()\<close> up to its first \<^verbatim>\<open>await\<close>; the promise of
  \<^verbatim>\<open>closeTransport\<close> is stored in \<^verbatim>\<open>disconnection\<close>.\<close>

definition ledger_disconnect :: "state \<Rightarrow> state \<times> (disconnect_await, unit) outcome" where
  "ledger_disconnect s =
     (let s1 = reset s
      in case transport s of
           Some h \<Rightarrow>
             (let s2 = closeTransport h s1
              in (s2\<lparr>disconnection := Some (fresh s2), fresh := Suc (fresh s2)\<rparr>, Await AwaitClose))
         | None \<Rightarrow>
             if disconnection s1 \<noteq> None then (s1, Await AwaitDisconnection)
             else (s1\<lparr>disconnection := None\<rparr>, Resolved ()))"

text \<open>Resuming once the awaited promise has settled. For the call that closed the
  transport the handler registered with \<^verbatim>\<open>then\<close> runs first.\<close>

fun ledger_disconnect_resume ::
  "disconnect_await \<Rightarrow> jserror + unit \<Rightarrow> state \<Rightarrow> state \<times> (disconnect_await, unit) outcome" where
  "ledger_disconnect_resume w (Inl e) s = (s, Rejected e)"
| "ledger_disconnect_resume AwaitClose (Inr u) s =
     ((onDisconnect s)\<lparr>disconnection := None\<rparr>, Resolved ())"
| "ledger_disconnect_resume AwaitDisconnection (Inr u) s =
     (s\<lparr>disconnection := None\<rparr>, Resolved ())"

subsection \<open>ledger.sign\<close>

text \<open>
  The host SDK is a collaborator: \<^verbatim>\<open>Buffer.toString("base64")\<close>, the transaction's
  \<^verbatim>\<open>addSignature(publicKey, signature)\<close>, and \<^verbatim>\<open>Keypair.fromPublicKey(k).signatureHint()\<close>
  (used by the older file) are parameters. Each may throw.
\<close>

record sdk =
  toBase64 :: "bytes \<Rightarrow> string"
  addSignature :: "string option \<Rightarrow> string \<Rightarrow> tx \<Rightarrow> jserror + tx"
  signatureHint :: "string option \<Rightarrow> jserror + bytes"

text \<open>The transaction is passed by reference \<open>r\<close> into the store \<open>txs\<close>; a reference
  that holds no transaction has no \<^verbatim>\<open>signatureBase\<close> method.\<close>

definition ledger_sign :: "nat \<Rightarrow> state \<Rightarrow> state \<times> (nat, nat) outcome" where
  "ledger_sign r s =
     (if \<not> truthy (publicKey s) then (s, Rejected (Error ''No ledger wallet connected.''))
      else case application s of
             None \<Rightarrow> (s, Rejected TypeError)
           | Some a \<Rightarrow>
               (case txs s r of
                  None \<Rightarrow> (s, Rejected TypeError)
                | Some t \<Rightarrow> (emit (SignTransaction a (path s) (signatureBase t)) s, Await r)))"

fun ledger_sign_resume :: "sdk \<Rightarrow> nat \<Rightarrow> reply \<Rightarrow> state \<Rightarrow> state \<times> (nat, nat) outcome" where
  "ledger_sign_resume k r (Signed sg) s =
     (case txs s r of
        None \<Rightarrow> (s, Rejected TypeError)
      | Some t \<Rightarrow>
          (case addSignature k (publicKey s) (toBase64 k sg) t of
             Inl e \<Rightarrow> (s, Rejected e)
           | Inr t' \<Rightarrow> (s\<lparr>txs := (txs s)(r \<mapsto> t')\<rparr>, Resolved r)))"
| "ledger_sign_resume k r (Failed e) s = (s, Rejected e)"
| "ledger_sign_resume k r x s = (s, Await r)"

section \<open>The older file (part_000)\<close>

text \<open>
  Names of the older file that \<^verbatim>\<open>index.js\<close> also uses carry the suffix \<open>0\<close>. Where a
  promise that is awaited has already settled, the code after the \<^verbatim>\<open>await\<close> is taken to
  run in the same segment.
\<close>

subsection \<open>makePath\<close>

fun truthy_number :: "int option \<Rightarrow> bool" where
  "truthy_number None = False"
| "truthy_number (Some n) = (n \<noteq> 0)"

definition makePath :: "int \<Rightarrow> int option \<Rightarrow> bool option \<Rightarrow> string" where
  "makePath a i f =
     (let q = [CHR 0x27];
          p0 = ''44'' @ q @ ''/148'' @ q @ ''/'' @ number_to_string a @ q;
          p1 = (if truthy_number i \<or> f = Some True
                then p0 @ (if f = Some True then ''/1'' @ q else ''/0'' @ q) else p0)
      in case i of
           None \<Rightarrow> p1
         | Some n \<Rightarrow> if n \<noteq> 0 then p1 @ ''/'' @ number_to_string n @ q else p1)"

subsection \<open>timeout, reset, disconnect\<close>

text \<open>\<^verbatim>\<open>timeout(x)\<close>: a promise that a timer of \<open>x\<close> ms fulfils.\<close>

definition timeout :: "nat \<Rightarrow> state \<Rightarrow> state" where
  "timeout x s = emit (SetTimeout x) s"

definition reset0 :: "state \<Rightarrow> state" where
  "reset0 s = s\<lparr>connection := Null, transport := None, application := None, path := None,
                account := None, index := None, internalFlag := None, version := None,
                publicKey := None, multiOpsEnabled := None\<rparr>"

definition onDisconnect0 :: "state \<Rightarrow> state" where
  "onDisconnect0 s = emit FireOnDisconnect (reset0 (emit (ConsoleLog ''Ledger disconnected'') s))"

text \<open>\<^verbatim>\<open>ledger.disconnect()\<close> returns the promise of \<^verbatim>\<open>transport.close()\<close> itself.\<close>

definition ledger_disconnect0 :: "state \<Rightarrow> state \<times> (unit, unit) outcome" where
  "ledger_disconnect0 s =
     (let s1 = s\<lparr>isPolling := False\<rparr>
      in case transport s1 of
           None \<Rightarrow> (s1, Resolved ())
         | Some h \<Rightarrow>
             (let s2 = emit (TransportClose h) s1
              in (s2\<lparr>disconnection := Some (fresh s2), fresh := Suc (fresh s2)\<rparr>, Await ())))"

text \<open>The answer of \<^verbatim>\<open>transport.close()\<close> settles \<^verbatim>\<open>disconnection\<close>; the handler registered
  with \<^verbatim>\<open>then\<close> runs when it is fulfilled.\<close>

fun close0_settled :: "reply \<Rightarrow> state \<Rightarrow> state \<times> (jserror + unit)" where
  "close0_settled (Failed e) s = (s, Inl e)"
| "close0_settled r s = (onDisconnect0 s, Inr ())"

fun ledger_disconnect0_resume :: "jserror + unit \<Rightarrow> state \<Rightarrow> state \<times> (unit, unit) outcome" where
  "ledger_disconnect0_resume (Inl e) s = (s, Rejected e)"
| "ledger_disconnect0_resume (Inr u) s = (s, Resolved ())"

subsection \<open>refreshAppConfiguration and polling\<close>

datatype connect0_await = Await0Create | Await0GetPublicKey | Await0Timeout

datatype polling_await = AwaitTimer | AwaitDisconnected

text \<open>The suspended calls of the older file: the handshake loop, \<^verbatim>\<open>onConnect\<close> waiting
  for its refresh, a refresh nobody waits for, and the polling loop with its local
  \<^verbatim>\<open>thisApplication\<close>.\<close>

datatype cont0 =
    Connect0 connect0_await
  | OnConnect0
  | Refresh0
  | Polling0 polling_await "app option"

text \<open>The result of a segment: state, outcome of the call itself, and the calls it
  started without waiting for them.\<close>

type_synonym result0 = "state \<times> (cont0, unit) outcome \<times> cont0 list"

text \<open>The call up to its \<^verbatim>\<open>await\<close>: with no application the property access throws
  inside \<^verbatim>\<open>try\<close>, and the \<^verbatim>\<open>catch\<close> finds no \<^verbatim>\<open>currentLock\<close>.\<close>

definition refreshAppConfiguration :: "state \<Rightarrow> state \<times> cont0 list" where
  "refreshAppConfiguration s =
     (case application s of
        None \<Rightarrow> (s, [])
      | Some a \<Rightarrow> (emit (GetAppConfiguration a) s, [Refresh0]))"

fun refreshAppConfiguration_resume :: "reply \<Rightarrow> state \<Rightarrow> state" where
  "refreshAppConfiguration_resume (GotConfiguration v m) s =
     s\<lparr>version := Some v, multiOpsEnabled := Some m, ping := True\<rparr>"
| "refreshAppConfiguration_resume (Failed e) s =
     (if error_currentLock e = Some ''signTransaction'' then s\<lparr>ping := True\<rparr> else s)"
| "refreshAppConfiguration_resume r s = s"

definition pollingDelay :: nat where
  "pollingDelay = 1000"

text \<open>One pass through the body of the loop, up to \<^verbatim>\<open>await timeout(pollingDelay)\<close>.\<close>

definition polling_cycle :: "app option \<Rightarrow> state \<Rightarrow> result0" where
  "polling_cycle a s =
     (case refreshAppConfiguration (s\<lparr>ping := False\<rparr>) of
        (s1, started) \<Rightarrow> (timeout pollingDelay s1, Await (Polling0 AwaitTimer a), started))"

text \<open>The loop test \<^verbatim>\<open>thisApplication === ledger.application\<close>.\<close>

definition polling_while :: "app option \<Rightarrow> state \<Rightarrow> result0" where
  "polling_while a s =
     (if a = application s then polling_cycle a s
      else (emit (ConsoleLog ''Stop polling'') s, Resolved (), []))"

definition polling :: "state \<Rightarrow> result0" where
  "polling s =
     polling_while (application s) ((emit (ConsoleLog ''Start polling'') s)\<lparr>isPolling := True\<rparr>)"

text \<open>After the timer: line 162 and the loop test.\<close>

definition polling_timer :: "app option \<Rightarrow> state \<Rightarrow> result0" where
  "polling_timer a s =
     (if \<not> ping s then
        (case ledger_disconnect0 s of
           (s1, Await u) \<Rightarrow> (s1, Await (Polling0 AwaitDisconnected a), [])
         | (s1, Resolved u) \<Rightarrow> polling_while a s1
         | (s1, Rejected e) \<Rightarrow> (s1, Rejected e, []))
      else polling_while a s)"


subsection \<open>onConnect\<close>

text \<open>What follows \<^verbatim>\<open>await refreshAppConfiguration()\<close>.\<close>

definition onConnect0_tail :: "state \<Rightarrow> state \<times> cont0 list" where
  "onConnect0_tail s =
     (let s1 = emit FireOnConnect s
      in if \<not> isPolling s1 then
           (case polling s1 of
              (s2, Await k, started) \<Rightarrow> (s2, k # started)
            | (s2, Resolved u, started) \<Rightarrow> (s2, started)
            | (s2, Rejected e, started) \<Rightarrow> (s2, started))
         else (s1, []))"

definition onConnect0 :: "state \<Rightarrow> state \<times> cont0 list" where
  "onConnect0 s =
     (case refreshAppConfiguration (emit (ConsoleLog ''Ledger connected'') s) of
        (s1, []) \<Rightarrow> onConnect0_tail s1
      | (s1, k # ks) \<Rightarrow> (s1, [OnConnect0]))"

definition onConnect0_resume :: "reply \<Rightarrow> state \<Rightarrow> state \<times> cont0 list" where
  "onConnect0_resume r s = onConnect0_tail (refreshAppConfiguration_resume r s)"

subsection \<open>connect: the handshake loop of the older file\<close>

definition connect0_application :: "bool \<Rightarrow> nat \<Rightarrow> state \<Rightarrow> result0" where
  "connect0_application isNode h s =
     (let new = (let a = StellarApp (fresh s) h
                 in (emit (GetPublicKey a (path s)) (s\<lparr>application := Some a, fresh := Suc (fresh s)\<rparr>),
                     Await (Connect0 Await0GetPublicKey), []))
      in case application s of
           None \<Rightarrow> new
         | Some a \<Rightarrow> if isNode then new
                     else (emit (GetPublicKey a (path s)) s, Await (Connect0 Await0GetPublicKey), []))"

definition connect0_try :: "bool \<Rightarrow> state \<Rightarrow> result0" where
  "connect0_try isNode s =
     (case transport s of
        None \<Rightarrow> (emit TransportCreate s, Await (Connect0 Await0Create), [])
      | Some h \<Rightarrow> if isNode then (emit TransportCreate s, Await (Connect0 Await0Create), [])
                  else connect0_application isNode h s)"

definition connect0_while :: "bool \<Rightarrow> state \<Rightarrow> result0" where
  "connect0_while isNode s =
     (if connection s \<noteq> Null \<and> \<not> truthy (publicKey s) then connect0_try isNode s
      else (s, Resolved (), []))"

text \<open>The \<^verbatim>\<open>catch\<close> block, up to \<^verbatim>\<open>await timeout(1000)\<close>.\<close>

definition connect0_catch :: "jserror \<Rightarrow> state \<Rightarrow> result0" where
  "connect0_catch e s =
     (let s1 = s\<lparr>error := Some e\<rparr>
      in if error_id e = Some ''U2FNotSupported'' then (s1, Rejected e, [])
         else (timeout 1000 s1, Await (Connect0 Await0Timeout), []))"

fun connect0_resume :: "bool \<Rightarrow> connect0_await \<Rightarrow> reply \<Rightarrow> state \<Rightarrow> result0" where
  "connect0_resume isNode Await0Timeout TimerFired s = connect0_while isNode s"
| "connect0_resume isNode Await0Timeout r s = (s, Await (Connect0 Await0Timeout), [])"
| "connect0_resume isNode w (Failed e) s = connect0_catch e s"
| "connect0_resume isNode Await0Create (Created h) s =
     connect0_application isNode h (s\<lparr>transport := Some h\<rparr>)"
| "connect0_resume isNode Await0GetPublicKey (GotPublicKey k) s =
     (case onConnect0 (s\<lparr>publicKey := Some k\<rparr>) of
        (s1, started) \<Rightarrow>
          (case connect0_while isNode s1 of
             (s2, out, started2) \<Rightarrow> (s2, out, started @ started2)))"
| "connect0_resume isNode w r s = (s, Await (Connect0 w), [])"

definition connect0 :: "bool \<Rightarrow> state \<Rightarrow> result0" where
  "connect0 isNode s =
     connect0_while isNode
       ((emit (ConsoleLog ''Attempting ledger connection...'') s)
          \<lparr>error := None, connection := Placeholder\<rparr>)"

text \<open>Feeding the loop the answers it waits for, nothing else running in between. Calls
  the loop starts on the side are not followed.\<close>

fun connect0_run :: "bool \<Rightarrow> reply list \<Rightarrow> result0 \<Rightarrow> result0" where
  "connect0_run isNode [] res = res"
| "connect0_run isNode (r # rs) (s, Await (Connect0 w), started) =
     connect0_run isNode rs (connect0_resume isNode w r s)"
| "connect0_run isNode (r # rs) res = res"

subsection \<open>ledger.connect of the older file\<close>

text \<open>The arguments after the defaults of lines 59 to 63.\<close>

definition connect0_arguments ::
  "int option \<Rightarrow> int option \<Rightarrow> bool option \<Rightarrow> state \<Rightarrow> int \<times> int option \<times> bool option" where
  "connect0_arguments a i f s =
     (case a of
        None \<Rightarrow> ((case account s of None \<Rightarrow> 0 | Some x \<Rightarrow> x),
                  Some (case index s of None \<Rightarrow> 0 | Some x \<Rightarrow> x),
                  Some (case internalFlag s of None \<Rightarrow> False | Some b \<Rightarrow> b))
      | Some x \<Rightarrow> (x, i, f))"

type_synonym ledger_connect0_cont = "int \<times> int option \<times> bool option"

type_synonym ledger_connect0_result =
  "state \<times> (ledger_connect0_cont, marker) outcome \<times> cont0 list"

text \<open>Lines 73 to 85.\<close>

definition ledger_connect0_tail ::
  "bool \<Rightarrow> ledger_connect0_cont \<Rightarrow> state \<Rightarrow> ledger_connect0_result" where
  "ledger_connect0_tail isNode c s =
     (case c of (a, i, f) \<Rightarrow>
        (let p = makePath a i f;
             s1 = (if path s \<noteq> Some p
                   then s\<lparr>connection := Null, publicKey := None, path := Some p,
                          account := Some a,
                          index := Some (case i of None \<Rightarrow> 0 | Some x \<Rightarrow> x),
                          internalFlag := Some (case f of None \<Rightarrow> False | Some b \<Rightarrow> b)\<rparr>
                   else s)
         in if connection s1 = Null then
              (case connect0 isNode s1 of
                 (s2, out, started) \<Rightarrow>
                   (s2\<lparr>connection := Promise (fresh s2), fresh := Suc (fresh s2)\<rparr>,
                    Resolved (Promise (fresh s2)),
                    (case out of Await k \<Rightarrow> [k] | Resolved u \<Rightarrow> [] | Rejected e \<Rightarrow> []) @ started))
            else (s1, Resolved (connection s1), [])))"

definition ledger_connect0 ::
  "bool \<Rightarrow> int option \<Rightarrow> int option \<Rightarrow> bool option \<Rightarrow> state \<Rightarrow> ledger_connect0_result" where
  "ledger_connect0 isNode a i f s =
     (let c = connect0_arguments a i f s
      in if disconnection s \<noteq> None then (s, Await c, [])
         else ledger_connect0_tail isNode c s)"

text \<open>After \<^verbatim>\<open>await disconnection\<close>: line 70, then the rest.\<close>

fun ledger_connect0_resume ::
  "bool \<Rightarrow> ledger_connect0_cont \<Rightarrow> jserror + unit \<Rightarrow> state \<Rightarrow> ledger_connect0_result" where
  "ledger_connect0_resume isNode c (Inl e) s = (s, Rejected e, [])"
| "ledger_connect0_resume isNode c (Inr u) s =
     ledger_connect0_tail isNode c (s\<lparr>disconnection := None\<rparr>)"

subsection \<open>ledger.sign of the older file\<close>

definition ledger_sign0 :: "nat \<Rightarrow> state \<Rightarrow> state \<times> (nat, nat) outcome" where
  "ledger_sign0 r s =
     (if \<not> truthy (publicKey s) then (s, Rejected (Error ''No ledger wallet connected.''))
      else case txs s r of
             None \<Rightarrow> (s, Rejected TypeError)
           | Some t \<Rightarrow>
               (case application s of
                  None \<Rightarrow> (s, Rejected TypeError)
                | Some a \<Rightarrow> (emit (SignTransaction a (path s) (signatureBase t)) s, Await r)))"

fun ledger_sign0_resume :: "sdk \<Rightarrow> nat \<Rightarrow> reply \<Rightarrow> state \<Rightarrow> state \<times> (nat, nat) outcome" where
  "ledger_sign0_resume k r (Signed sg) s =
     (case signatureHint k (publicKey s) of
        Inl e \<Rightarrow> (s, Rejected e)
      | Inr h \<Rightarrow>
          (case txs s r of
             None \<Rightarrow> (s, Rejected TypeError)
           | Some t \<Rightarrow>
               (s\<lparr>txs := (txs s)(r \<mapsto> t\<lparr>signatures := signatures t @ [\<lparr>hint = h, signature = sg\<rparr>]\<rparr>)\<rparr>,
                Resolved r)))"
| "ledger_sign0_resume k r (Failed e) s = (s, Rejected e)"
| "ledger_sign0_resume k r x s = (s, Await r)"

section \<open>Example states\<close>

text \<open>An established session on account 1, as a browser holds it after a handshake:
  transport 7, the application object 0 built on it, the attempt's promise 1.\<close>

definition path1 :: string where
  "path1 = ''44'' @ [CHR 0x27] @ ''/148'' @ [CHR 0x27] @ ''/0'' @ [CHR 0x27]"

definition path2 :: string where
  "path2 = ''44'' @ [CHR 0x27] @ ''/148'' @ [CHR 0x27] @ ''/1'' @ [CHR 0x27]"

definition established :: state where
  "established = init\<lparr>publicKey := Some ''GABC'', path := Some path1, version := Some ''3.0'',
                       multiOpsEnabled := Some False, transport := Some 7,
                       application := Some (StellarApp 0 7), connection := Promise 1, fresh := 2,
                       txs := (\<lambda>r. if r = 0 then Some \<lparr>signatureBase = [1, 2, 3], signatures = []\<rparr>
                                   else None)\<rparr>"


text \<open>A stand-in for the host SDK: the hint is the last four characters of the key, the
  encoding keeps the bytes, and \<^verbatim>\<open>addSignature\<close> appends the decorated signature of the key
  and the decoded bytes.\<close>

definition sdk_example :: sdk where
  "sdk_example =
     \<lparr> toBase64 = map char_of,
       addSignature = (\<lambda>k g t. case k of
            None \<Rightarrow> Inl (Error ''Invalid publicKey'')
          | Some pk \<Rightarrow> Inr (t\<lparr>signatures := signatures t @
                              [\<lparr>hint = map of_char (drop (length pk - 4) pk),
                                signature = map of_char g\<rparr>]\<rparr>)),
       signatureHint = (\<lambda>k. case k of
            None \<Rightarrow> Inl TypeError
          | Some pk \<Rightarrow> Inr (map of_char (drop (length pk - 4) pk))) \<rparr>"

text \<open>The states right after a first \<^verbatim>\<open>connect()\<close> on Node, in either file.\<close>

definition connecting :: state where
  "connecting = fst (ledger_connect True None 0 init)"

definition connecting0 :: state where
  "connecting0 = fst (ledger_connect0 True (Some 0) None None init)"

definition transient :: jserror where
  "transient = External (Some ''TransportError'') None ''no device''"

definition unsupported :: jserror where
  "unsupported = External (Some ''U2FNotSupported'') None ''U2F not supported''"

text \<open>The module before any call, with one transaction of the caller in the store.\<close>

definition idle :: state where
  "idle = init\<lparr>txs := (\<lambda>r. if r = 0 then Some \<lparr>signatureBase = [1, 2, 3], signatures = []\<rparr>
                             else None)\<rparr>"

text \<open>A device that answers every step of the handshake.\<close>

definition handshake :: "(reply \<times> int) list" where
  "handshake = [(Created 7, 10), (GotPublicKey ''GABC'', 20), (GotConfiguration ''3.0'' False, 30)]"

text \<open>\<^verbatim>\<open>connect()\<close> on Node, then \<^verbatim>\<open>disconnect()\<close> before the transport has been created;
  then the answers of the device reach the attempt that was suspended.\<close>

definition cancelled :: state where
  "cancelled = fst (ledger_disconnect (fst (ledger_connect True None 0 idle)))"

definition resurrected :: state where
  "resurrected =
     fst (connect_run True handshake (cancelled, Await (ConnectCont AwaitCreate path1 0)))"

text \<open>The older file on Node: a handshake, the first polling loop waiting on its timer, a
  \<^verbatim>\<open>disconnect()\<close> whose \<^verbatim>\<open>close()\<close> succeeds, a second \<^verbatim>\<open>connect(0)\<close> and its
  handshake. The timer of the first loop has not fired in the meantime.\<close>

definition answered0 :: result0 where
  "answered0 =
     connect0_run True [Created 7, GotPublicKey ''GABC'']
       (connecting0, Await (Connect0 Await0Create), [])"

definition monitored :: state where
  "monitored = fst (onConnect0_resume (GotConfiguration ''3.0'' False) (fst answered0))"

definition torn_down :: state where
  "torn_down = fst (close0_settled Closed (fst (ledger_disconnect0 monitored)))"

definition reconnecting :: state where
  "reconnecting = fst (ledger_connect0_resume True (0, None, None) (Inr ()) torn_down)"

definition answered_again :: result0 where
  "answered_again =
     connect0_run True [Created 8, GotPublicKey ''GABC'']
       (reconnecting, Await (Connect0 Await0Create), [])"

definition monitored_twice :: state where
  "monitored_twice = fst (onConnect0_resume (GotConfiguration ''3.0'' False) (fst answered_again))"

section \<open>Properties\<close>

subsection \<open>Helper facts\<close>

text \<open>The definitions a concrete run unfolds.\<close>

lemmas run_defs =
  init_def established_def connecting_def connecting0_def transient_def unsupported_def
  path1_def path2_def BIP_PATH_def number_to_string_def makePath_def emit_def
  closeTransport_def timeout_def
  softReset_def reset_def onConnect_def onDisconnect_def
  connect_def connect_while_def connect_try_def connect_application_def connect_catch_def
  ledger_connect_def ledger_connect_tail_def ledger_connect_return_def
  ledger_disconnect_def ledger_sign_def
  connect0_def connect0_while_def connect0_try_def connect0_application_def connect0_catch_def
  connect0_arguments_def ledger_connect0_def ledger_connect0_tail_def
  ledger_disconnect0_def ledger_sign0_def reset0_def onDisconnect0_def
  refreshAppConfiguration_def polling_def polling_while_def polling_cycle_def polling_timer_def
  pollingDelay_def onConnect0_def onConnect0_tail_def onConnect0_resume_def sdk_example_def

lemmas trace_defs = idle_def handshake_def cancelled_def resurrected_def answered0_def
  monitored_def torn_down_def reconnecting_def answered_again_def monitored_twice_def

lemma closeTransport_resume_fulfils: "snd (closeTransport_resume r s) = Inr ()"
  by (cases r) simp_all











subsection \<open>The path resolver\<close>



subsection \<open>Soft reset on a change of path\<close>

text \<open>
  Claim C5. When \<^verbatim>\<open>ledger.connect\<close> (in \<^verbatim>\<open>index.js\<close>) runs with a session path that is set
  (a non-empty string, which is what the test \<^verbatim>\<open>ledger.path && ...\<close> accepts) and differs from
  the resolved target path, it performs \<^verbatim>\<open>softReset\<close> before anything else; the soft reset
  clears the in-flight marker, the path and the public key and nothing else, so the transport
  and application handles and the record of outside calls stay as they were. Up to the first
  suspension of the call the transport field is still the old one and the only outside calls
  are the log line of the new attempt and its first request: no \<^verbatim>\<open>close()\<close>. (Lines 113
  to 115 are what the call runs once the path is resolved and no disconnection is pending,
  and what it runs after waiting for a pending one.)
\<close>

theorem soft_reset_on_path_change:
  "(ledger_connect_path (case a of None \<Rightarrow> Number 1 | Some x \<Rightarrow> x) = Inr p
      \<and> disconnection s = None \<longrightarrow>
     ledger_connect isNode a now s = ledger_connect_tail isNode p now s)
   \<and> ledger_connect_resume isNode p (Inr ()) now s = ledger_connect_tail isNode p now s
   \<and> (path s = Some p0 \<and> p0 \<noteq> [] \<and> p0 \<noteq> p \<longrightarrow>
     ledger_connect_tail isNode p now s = ledger_connect_return isNode p now (softReset s)
   \<and> softReset s = s\<lparr>connection := Null, path := None, publicKey := None\<rparr>
   \<and> transport (softReset s) = transport s
   \<and> application (softReset s) = application s
   \<and> effects (softReset s) = effects s
   \<and> transport (fst (ledger_connect_tail isNode p now s)) = transport s
   \<and> (\<exists>c. effects (fst (ledger_connect_tail isNode p now s)) =
            effects s @ [ConsoleLog ''Attempting ledger connection...'', c]
          \<and> (c = TransportCreate \<or> (\<exists>a. c = GetPublicKey a (Some p)))))"
  by (auto simp add: ledger_connect_def ledger_connect_tail_def softReset_def
      ledger_connect_return_def connect_def
      connect_while_def connect_try_def connect_application_def emit_def Let_def
      split: option.split)

theorem soft_reset_on_path_change_witness:
  "path established = Some path1 \<and> path1 \<noteq> [] \<and> path1 \<noteq> path2
   \<and> ledger_connect_path (Number 2) = Inr path2 \<and> disconnection established = None
   \<and> ledger_connect False (Some (Number 2)) 50 established =
       ledger_connect_return False path2 50 (softReset established)
   \<and> softReset established = established\<lparr>connection := Null, path := None, publicKey := None\<rparr>
   \<and> transport (fst (ledger_connect_tail False path2 50 established)) = Some 7
   \<and> application (fst (ledger_connect_tail False path2 50 established)) = Some (StellarApp 0 7)
   \<and> publicKey (fst (ledger_connect_tail False path2 50 established)) = None
   \<and> effects (fst (ledger_connect_tail False path2 50 established)) =
       [ConsoleLog ''Attempting ledger connection...'', GetPublicKey (StellarApp 0 7) (Some path2)]"
proof -
  have h: "path established = Some path1 \<and> path1 \<noteq> [] \<and> path1 \<noteq> path2
      \<and> ledger_connect_path (Number 2) = Inr path2 \<and> disconnection established = None"
    by (simp add: established_def init_def path1_def path2_def BIP_PATH_def number_to_string_def)
  have e: "transport (fst (ledger_connect_tail False path2 50 established)) = Some 7
      \<and> application (fst (ledger_connect_tail False path2 50 established)) = Some (StellarApp 0 7)
      \<and> publicKey (fst (ledger_connect_tail False path2 50 established)) = None
      \<and> effects (fst (ledger_connect_tail False path2 50 established)) =
         [ConsoleLog ''Attempting ledger connection...'', GetPublicKey (StellarApp 0 7) (Some path2)]"
    by (simp add: established_def init_def path1_def path2_def
        ledger_connect_tail_def softReset_def ledger_connect_return_def connect_def
        connect_while_def connect_try_def connect_application_def emit_def)
  show ?thesis
    using soft_reset_on_path_change [of "Some (Number 2)" path2 established False 50 path1] h e
    by simp
qed

subsection \<open>Signing without a session\<close>

text \<open>
  Claim C6. When no public key is set (\<^verbatim>\<open>ledger.publicKey\<close> is null or empty), \<^verbatim>\<open>sign\<close>
  throws \<^verbatim>\<open>Error("No ledger wallet connected.")\<close> (the spec's NotConnectedError) and leaves
  everything as it was: the transaction store is untouched, so the transaction gets no
  signature, and no request goes to the device. This holds in both files.
\<close>

theorem sign_not_connected:
  "\<not> truthy (publicKey s) \<longrightarrow>
     ledger_sign r s = (s, Rejected (Error ''No ledger wallet connected.''))
   \<and> ledger_sign0 r s = (s, Rejected (Error ''No ledger wallet connected.''))"
  by (simp add: ledger_sign_def ledger_sign0_def)

theorem sign_not_connected_witness:
  "\<not> truthy (publicKey init)
   \<and> ledger_sign 0 init = (init, Rejected (Error ''No ledger wallet connected.''))
   \<and> ledger_sign0 0 init = (init, Rejected (Error ''No ledger wallet connected.''))"
  using sign_not_connected [of init 0] by (simp add: init_def)

subsection \<open>disconnect does not throw\<close>

text \<open>The older file hands the promise of \<^verbatim>\<open>transport.close()\<close> to its caller as it is:
  there a failure of \<^verbatim>\<open>close()\<close> does reach the caller, and \<^verbatim>\<open>onDisconnect\<close> is not
  run.\<close>

lemma older_disconnect_rejects:
  "ledger_disconnect0_resume (snd (close0_settled (Failed e) s)) s' = (s', Rejected e)
   \<and> fst (close0_settled (Failed e) s) = s"
  by simp

text \<open>
  Claim C9. \<^verbatim>\<open>ledger.disconnect\<close> of \<^verbatim>\<open>index.js\<close> never rejects. Its first segment ends
  fulfilled or suspended; the promise of \<^verbatim>\<open>closeTransport\<close> is fulfilled whatever
  \<^verbatim>\<open>transport.close()\<close> answers, a failure being written to \<^verbatim>\<open>console.error\<close>; so every
  call waiting for it ends fulfilled. With no transport and no pending disconnection the call
  is fulfilled at once, having made no outside call; from the initial state it changes nothing.
\<close>

theorem disconnect_never_rejects:
  "(snd (ledger_disconnect s) = Resolved () \<or> snd (ledger_disconnect s) = Await AwaitClose
      \<or> snd (ledger_disconnect s) = Await AwaitDisconnection)
   \<and> snd (ledger_disconnect_resume w (snd (closeTransport_resume r s1)) s2) = Resolved ()
   \<and> closeTransport_resume (Failed e) s1 = (emit (ConsoleError e) s1, Inr ())
   \<and> (transport s = None \<and> disconnection s = None \<longrightarrow>
        ledger_disconnect s = (reset s, Resolved ()) \<and> effects (reset s) = effects s)"
proof -
  have a: "snd (ledger_disconnect s) = Resolved () \<or> snd (ledger_disconnect s) = Await AwaitClose
      \<or> snd (ledger_disconnect s) = Await AwaitDisconnection"
    by (simp add: ledger_disconnect_def Let_def split: option.split)
  have b: "snd (ledger_disconnect_resume w (snd (closeTransport_resume r s1)) s2) = Resolved ()"
    by (cases w) (simp_all add: closeTransport_resume_fulfils)
  have c: "transport s = None \<and> disconnection s = None \<longrightarrow>
        ledger_disconnect s = (reset s, Resolved ()) \<and> effects (reset s) = effects s"
    by (simp add: ledger_disconnect_def reset_def)
  from a b c show ?thesis by simp
qed

theorem disconnect_never_rejects_witness:
  "transport init = None \<and> disconnection init = None
   \<and> ledger_disconnect init = (init, Resolved ())
   \<and> snd (ledger_disconnect_resume AwaitClose
            (snd (closeTransport_resume (Failed TypeError) init)) init) = Resolved ()"
  using disconnect_never_rejects [of init AwaitClose "Failed TypeError" init init TypeError]
  by (simp add: init_def reset_def)

subsection \<open>One shared connection attempt\<close>































subsection \<open>Signing with a session\<close>

lemma sign_resume_effects:
  "effects (fst (ledger_sign0_resume k r x s)) = effects s
   \<and> effects (fst (ledger_sign_resume k r x s)) = effects s"
  by (cases x) (simp_all split: option.split sum.split)

text \<open>
  Claim C7. With a session established (a public key, an application object) \<^verbatim>\<open>sign(tx)\<close>
  sends one \<^verbatim>\<open>signTransaction\<close> request for the session path and the transaction's
  signature base, and waits. When the device answers with a signature, the older file appends
  to the transaction's \<^verbatim>\<open>signatures\<close> exactly one decorated signature, made of the hint
  of the stored public key and the raw bytes the device returned; \<^verbatim>\<open>index.js\<close> hands the
  stored public key and the base64 text of those bytes to the SDK's \<^verbatim>\<open>addSignature\<close>,
  once, and stores what it yields. Both return the reference they were given. When the device
  answers with an error, the call rejects with that error and the transaction is untouched.
  Whatever the answer, the resumed call makes no further outside call: the request is issued
  once and never repeated.
\<close>

theorem sign_appends_one_signature:
  "(truthy (publicKey s) \<and> application s = Some a \<and> txs s r = Some t \<longrightarrow>
      ledger_sign0 r s = (emit (SignTransaction a (path s) (signatureBase t)) s, Await r)
    \<and> ledger_sign r s = (emit (SignTransaction a (path s) (signatureBase t)) s, Await r))
   \<and> (txs s' r = Some t' \<and> signatureHint k (publicKey s') = Inr h \<longrightarrow>
      ledger_sign0_resume k r (Signed sg) s' =
        (s'\<lparr>txs := (txs s')(r \<mapsto> t'\<lparr>signatures := signatures t' @ [\<lparr>hint = h, signature = sg\<rparr>]\<rparr>)\<rparr>,
         Resolved r))
   \<and> (txs s' r = Some t' \<and> addSignature k (publicKey s') (toBase64 k sg) t' = Inr t'' \<longrightarrow>
      ledger_sign_resume k r (Signed sg) s' = (s'\<lparr>txs := (txs s')(r \<mapsto> t'')\<rparr>, Resolved r))
   \<and> ledger_sign0_resume k r (Failed e) s' = (s', Rejected e)
   \<and> ledger_sign_resume k r (Failed e) s' = (s', Rejected e)
   \<and> effects (fst (ledger_sign0_resume k r x s')) = effects s'
   \<and> effects (fst (ledger_sign_resume k r x s')) = effects s'"
  using sign_resume_effects [of k r x s']
  by (simp add: ledger_sign_def ledger_sign0_def)

theorem sign_appends_one_signature_witness:
  "truthy (publicKey established) \<and> application established = Some (StellarApp 0 7)
   \<and> txs established 0 = Some \<lparr>signatureBase = [1, 2, 3], signatures = []\<rparr>
   \<and> signatureHint sdk_example (publicKey established) = Inr [71, 65, 66, 67]
   \<and> addSignature sdk_example (publicKey established) (toBase64 sdk_example [9, 8])
        \<lparr>signatureBase = [1, 2, 3], signatures = []\<rparr> =
      Inr \<lparr>signatureBase = [1, 2, 3], signatures = [\<lparr>hint = [71, 65, 66, 67], signature = [9, 8]\<rparr>]\<rparr>
   \<and> effects (fst (ledger_sign0 0 established)) =
        [SignTransaction (StellarApp 0 7) (Some path1) [1, 2, 3]]
   \<and> snd (ledger_sign0_resume sdk_example 0 (Signed [9, 8]) (fst (ledger_sign0 0 established))) =
        Resolved 0
   \<and> txs (fst (ledger_sign0_resume sdk_example 0 (Signed [9, 8]) (fst (ledger_sign0 0 established)))) 0 =
        Some \<lparr>signatureBase = [1, 2, 3], signatures = [\<lparr>hint = [71, 65, 66, 67], signature = [9, 8]\<rparr>]\<rparr>
   \<and> effects (fst (ledger_sign 0 established)) =
        [SignTransaction (StellarApp 0 7) (Some path1) [1, 2, 3]]
   \<and> snd (ledger_sign_resume sdk_example 0 (Signed [9, 8]) (fst (ledger_sign 0 established))) =
        Resolved 0
   \<and> txs (fst (ledger_sign_resume sdk_example 0 (Signed [9, 8]) (fst (ledger_sign 0 established)))) 0 =
        Some \<lparr>signatureBase = [1, 2, 3], signatures = [\<lparr>hint = [71, 65, 66, 67], signature = [9, 8]\<rparr>]\<rparr>"
proof -
  let ?t = "\<lparr>signatureBase = [1, 2, 3], signatures = []\<rparr>"
  let ?s1 = "emit (SignTransaction (StellarApp 0 7) (path established) (signatureBase ?t)) established"
  have h: "truthy (publicKey established) \<and> application established = Some (StellarApp 0 7)
      \<and> txs established 0 = Some ?t \<and> path established = Some path1
      \<and> effects established = []"
    by (simp add: established_def init_def)
  have g: "txs ?s1 0 = Some ?t \<and> signatureHint sdk_example (publicKey ?s1) = Inr [71, 65, 66, 67]
      \<and> publicKey ?s1 = publicKey established
      \<and> addSignature sdk_example (publicKey ?s1) (toBase64 sdk_example [9, 8]) ?t =
          Inr (?t\<lparr>signatures := signatures ?t @ [\<lparr>hint = [71, 65, 66, 67], signature = [9, 8]\<rparr>]\<rparr>)"
    by (simp add: established_def init_def emit_def sdk_example_def)
  show ?thesis
    using sign_appends_one_signature [of established "StellarApp 0 7" 0 ?t ?s1 ?t sdk_example
        "[71, 65, 66, 67]" "[9, 8]"
        "?t\<lparr>signatures := signatures ?t @ [\<lparr>hint = [71, 65, 66, 67], signature = [9, 8]\<rparr>]\<rparr>"
        TypeError Closed] h g
    by (simp add: emit_def)
qed

subsection \<open>Failures during the handshake\<close>







subsection \<open>Signing after disconnect\<close>

lemma disconnect_clears_session:
  "publicKey (fst (ledger_disconnect s)) = None \<and> path (fst (ledger_disconnect s)) = None
   \<and> transport (fst (ledger_disconnect s)) = None \<and> application (fst (ledger_disconnect s)) = None
   \<and> version (fst (ledger_disconnect s)) = None \<and> multiOpsEnabled (fst (ledger_disconnect s)) = None
   \<and> connection (fst (ledger_disconnect s)) = Null
   \<and> ledger_sign r (fst (ledger_disconnect s)) =
       (fst (ledger_disconnect s), Rejected (Error ''No ledger wallet connected.''))"
  by (simp add: ledger_disconnect_def reset_def emit_def closeTransport_def ledger_sign_def Let_def
      split: option.split)

text \<open>An attempt that waits for \<^verbatim>\<open>Transport.create()\<close> when \<^verbatim>\<open>disconnect()\<close> runs
  goes on afterwards: once the transport and a non-empty key have arrived the key is stored,
  and \<^verbatim>\<open>sign\<close> sends its request, whatever the state was before.\<close>

lemma suspended_attempt_survives_disconnect:
  assumes "k \<noteq> []" "txs s r = Some t"
  shows "publicKey (fst (connect_run isNode [(Created h, t1), (GotPublicKey k, t2)]
            (fst (ledger_disconnect s), Await (ConnectCont AwaitCreate p t0)))) = Some k
   \<and> snd (ledger_sign r (fst (connect_run isNode [(Created h, t1), (GotPublicKey k, t2)]
            (fst (ledger_disconnect s), Await (ConnectCont AwaitCreate p t0))))) = Await r"
  using assms
  by (simp add: ledger_disconnect_def reset_def closeTransport_def connect_application_def
      emit_def ledger_sign_def Let_def split: option.split)

text \<open>
  Claim C10 says that \<^verbatim>\<open>disconnect()\<close> clears the session at once, so that whatever runs
  afterwards a \<^verbatim>\<open>sign()\<close> fails with \<^verbatim>\<open>Error("No ledger wallet connected.")\<close>. The first
  half holds (\<open>disconnect_clears_session\<close>). The second does not: an attempt that is
  suspended when \<^verbatim>\<open>disconnect()\<close> runs is not stopped. Here \<^verbatim>\<open>connect()\<close> is called on
  Node and \<^verbatim>\<open>disconnect()\<close> right after it, before \<^verbatim>\<open>Transport.create()\<close> has answered:
  the session is cleared and nothing is closed. When the transport, the key and the
  configuration then arrive, the attempt stores them all and fires \<^verbatim>\<open>onConnect\<close>, with
  \<^verbatim>\<open>connection\<close> still null; a \<^verbatim>\<open>sign(tx)\<close> made then sends the transaction to the
  device.
\<close>

theorem sign_after_disconnect:
  "snd (ledger_connect True None 0 idle) = (Resolved (Promise 0), [ConnectCont AwaitCreate path1 0])
   \<and> snd (ledger_disconnect (fst (ledger_connect True None 0 idle))) = Resolved ()
   \<and> publicKey cancelled = None \<and> connection cancelled = Null \<and> transport cancelled = None
   \<and> snd (connect_run True handshake (cancelled, Await (ConnectCont AwaitCreate path1 0))) = Resolved ()
   \<and> publicKey resurrected = Some ''GABC'' \<and> path resurrected = Some path1
   \<and> transport resurrected = Some 7 \<and> application resurrected = Some (StellarApp 1 7)
   \<and> connection resurrected = Null
   \<and> effects resurrected =
       [ConsoleLog ''Attempting ledger connection...'', TransportCreate,
        GetPublicKey (StellarApp 1 7) (Some path1), GetAppConfiguration (StellarApp 1 7),
        ConsoleLog ''Ledger connected'', FireOnConnect]
   \<and> ledger_sign 0 resurrected =
       (emit (SignTransaction (StellarApp 1 7) (Some path1) [1, 2, 3]) resurrected, Await 0)"
  by (simp add: trace_defs run_defs Let_def)

subsection \<open>The polling loop\<close>






end
